theory Spec2Isabelle
  imports Main "HOL-Library.Char_ord" "HOL-Library.List_Lexorder"
begin

section \<open>Commands, the dependency registry and the environment\<close>

text \<open>
  A \<^verbatim>\<open>*cobra.Command\<close> is a pointer to a node that holds a pointer to its parent
  (\<^verbatim>\<open>nil\<close> at the root). The node is identified by its address; the parent chain of a
  command tree is finite, so the chain is a datatype and \<^verbatim>\<open>cmd.Parent()\<close> is the selector.
\<close>

datatype command = Command (addr: nat) (Parent: "command option")

text \<open>
  \<^verbatim>\<open>var externalDeps = make(map[*cobra.Command][]string)\<close>. The map is kept as the list of
  its entries: the order of the list is the order in which \<^verbatim>\<open>range\<close> visits them, which Go
  leaves unspecified. A map holds a key once, so the keys of the list are distinct; a key is
  the address of a command. Reading a key that is absent gives the nil slice.
\<close>

type_synonym registry = "(nat \<times> string list) list"

definition externalDeps_at :: "registry \<Rightarrow> command \<Rightarrow> string list" where
  "externalDeps_at ed cmd = (case map_of ed (addr cmd) of None \<Rightarrow> [] | Some ds \<Rightarrow> ds)"

text \<open>
  What the program observes and does to the outside world, in the order it happens.
  \<open>RunAction a\<close> marks the dispatcher calling the \<^verbatim>\<open>Run\<close> function of the command at
  address \<open>a\<close>.
\<close>

datatype event =
    OsCreate string
  | StartCPUProfile
  | StopCPUProfile
  | ExecLookPath string
  | Stdout string
  | Stderr string
  | RunAction nat
  | NewFromConfig string
  | ReadDir string
  | AddRPMList "string list"

text \<open>
  A computation leaves a trace of events and either returns a value or has ended the
  process with \<^verbatim>\<open>os.Exit(status)\<close>; nothing runs after an exit.
\<close>

datatype 'a res = Exit int | Return 'a

type_synonym 'a proc = "event list \<times> 'a res"

definition ret :: "'a \<Rightarrow> 'a proc" where
  "ret x = ([], Return x)"

definition emit :: "event \<Rightarrow> unit proc" where
  "emit e = ([e], Return ())"

definition os_Exit :: "int \<Rightarrow> 'a proc" where
  "os_Exit n = ([], Exit n)"

definition andThen :: "'a proc \<Rightarrow> ('a \<Rightarrow> 'b proc) \<Rightarrow> 'b proc" where
  "andThen p f =
     (case p of
        (tr, Exit n) \<Rightarrow> (tr, Exit n)
      | (tr, Return x) \<Rightarrow> (case f x of (tr', r) \<Rightarrow> (tr @ tr', r)))"

text \<open>
  The environment of one run: whether \<^verbatim>\<open>exec.LookPath\<close> finds a program (\<^verbatim>\<open>err == nil\<close>),
  the error of \<^verbatim>\<open>os.Create\<close> and of \<^verbatim>\<open>pprof.StartCPUProfile\<close> if any, the constant
  \<^verbatim>\<open>builder.Version\<close> and the usage text of a command, and the results of the builder
  package and of \<^verbatim>\<open>ioutil.ReadDir\<close> (\<open>Inl\<close> and \<open>Some\<close> carry the message of an error). The
  builder is reduced to the one field this package reads.
\<close>

record builder =
  RPMdir :: string

record env =
  lookPath :: "string \<Rightarrow> bool"
  osCreate :: "string \<Rightarrow> string option"
  startCPUProfile :: "string option"
  builderVersion :: string
  usageString :: "nat \<Rightarrow> string"
  newFromConfig :: "string \<Rightarrow> string + builder"
  readDir :: "string \<Rightarrow> string + string list"
  addRPMList :: "string list \<Rightarrow> string option"

text \<open>\<^verbatim>\<open>rootCmdFlags\<close>.\<close>

record flags =
  version :: bool
  check :: bool
  cpuProfile :: string

section \<open>checkCmdDeps\<close>

text \<open>
  \<^verbatim>\<open>for ; cmd != nil; cmd = cmd.Parent() { deps = append(deps, externalDeps[cmd]...) }\<close>
\<close>

function collectDeps :: "registry \<Rightarrow> command option \<Rightarrow> string list \<Rightarrow> string list" where
  "collectDeps ed None deps = deps"
| "collectDeps ed (Some cmd) deps = collectDeps ed (Parent cmd) (deps @ externalDeps_at ed cmd)"
  by pat_completeness auto
termination
  by (relation "measure (\<lambda>(ed, c, deps). size_option size c)") (auto, case_tac cmd, simp)

text \<open>\<^verbatim>\<open>strings.Join\<close>.\<close>

fun Join :: "string list \<Rightarrow> string \<Rightarrow> string" where
  "Join [] sep = []"
| "Join [x] sep = x"
| "Join (x # y # ys) sep = x @ sep @ Join (y # ys) sep"

text \<open>
  One round of the loop over the sorted slice, at index \<open>i\<close>: a name equal to its
  predecessor is skipped, any other is looked up and appended to \<open>missing\<close> when the
  lookup fails. The state is the trace of lookups so far and \<open>missing\<close>.
\<close>

definition cmdDepsStep ::
  "env \<Rightarrow> string list \<Rightarrow> event list \<times> string list \<Rightarrow> nat \<Rightarrow> event list \<times> string list" where
  "cmdDepsStep e deps st i =
     (if i > 0 \<and> deps ! i = deps ! (i - 1) then st
      else (fst st @ [ExecLookPath (deps ! i)],
            if lookPath e (deps ! i) then snd st else snd st @ [deps ! i]))"

definition cmdDepsLoop :: "env \<Rightarrow> string list \<Rightarrow> event list \<times> string list" where
  "cmdDepsLoop e deps = foldl (cmdDepsStep e deps) ([], []) [0..<length deps]"

text \<open>
  \<^verbatim>\<open>sort.Strings\<close> puts the slice in increasing order of Go's \<^verbatim>\<open><\<close> on strings, which compares
  byte by byte; that is the order of \<open>string\<close> here (lists compared lexicographically,
  characters by their code). The error of \<^verbatim>\<open>checkCmdDeps\<close> is its message; \<open>None\<close> is \<^verbatim>\<open>nil\<close>.
\<close>

definition checkCmdDeps :: "env \<Rightarrow> registry \<Rightarrow> command \<Rightarrow> string option proc" where
  "checkCmdDeps e ed cmd =
     (let deps = sort (collectDeps ed (Some cmd) []);
          (tr, missing) = cmdDepsLoop e deps
      in (tr, Return (if length missing > 0
                      then Some (''missing following external programs: '' @ Join missing '', '')
                      else None)))"

section \<open>checkAllDeps\<close>

text \<open>
  \<^verbatim>\<open>utf8.RuneCountInString\<close>: \<open>runeLen\<close> is the number of bytes the first rune of a
  non-empty string takes, 1 for a byte that does not start a well-formed encoding.
\<close>

definition runeLen :: "char \<Rightarrow> string \<Rightarrow> nat" where
  "runeLen c s =
     (let b = (of_char c :: nat) in
      if b < 0x80 then 1
      else if b < 0xC2 \<or> 0xF4 < b then 1
      else
        let size = (if b < 0xE0 then 2 else if b < 0xF0 then 3 else (4::nat));
            lo = (if b = 0xE0 then 0xA0 else if b = 0xF0 then 0x90 else (0x80::nat));
            hi = (if b = 0xED then 0x9F else if b = 0xF4 then 0x8F else (0xBF::nat));
            cont = (\<lambda>k. 0x80 \<le> (of_char (s ! k) :: nat) \<and> (of_char (s ! k) :: nat) \<le> 0xBF)
        in if 1 + length s < size then 1
           else if (of_char (s ! 0) :: nat) < lo \<or> hi < (of_char (s ! 0) :: nat) then 1
           else if size = 2 then 2
           else if \<not> cont 1 then 1
           else if size = 3 then 3
           else if \<not> cont 2 then 1
           else 4)"

function RuneCountInString :: "string \<Rightarrow> nat" where
  "RuneCountInString [] = 0"
| "RuneCountInString (c # s) = Suc (RuneCountInString (drop (runeLen c s - 1) s))"
  by pat_completeness auto
termination
  by (relation "measure length") auto

text \<open>
  The verb \<^verbatim>\<open>%-*s\<close> with operands \<open>w\<close> and \<open>s\<close>: \<open>s\<close>, then spaces up to \<open>w\<close> runes
  (fmt measures a width in runes). A width above one million, which fmt refuses, is outside
  what is modelled.
\<close>

definition padRight :: "nat \<Rightarrow> string \<Rightarrow> string" where
  "padRight w s = s @ replicate (w - RuneCountInString s) (CHR '' '')"

text \<open>
  One round of the printing loop at index \<open>i\<close>; the state is the trace so far and \<open>ok\<close>.
\<close>

definition allDepsStep ::
  "env \<Rightarrow> string list \<Rightarrow> nat \<Rightarrow> event list \<times> bool \<Rightarrow> nat \<Rightarrow> event list \<times> bool" where
  "allDepsStep e allDeps mx st i =
     (if i > 0 \<and> allDeps ! i = allDeps ! (i - 1) then st
      else if \<not> lookPath e (allDeps ! i)
      then (fst st @ [ExecLookPath (allDeps ! i),
                      Stdout (''  '' @ padRight mx (allDeps ! i) @ '' not found\<newline>'')], False)
      else (fst st @ [ExecLookPath (allDeps ! i),
                      Stdout (''  '' @ padRight mx (allDeps ! i) @ '' ok\<newline>'')], snd st))"

definition checkAllDeps :: "env \<Rightarrow> registry \<Rightarrow> bool proc" where
  "checkAllDeps e ed =
     (let allDeps = sort (foldl (\<lambda>all entry. all @ snd entry) [] ed);
          mx = foldl (\<lambda>m dep. if length dep > m then length dep else m) 0 allDeps;
          (tr, ok) = foldl (allDepsStep e allDeps mx)
                       ([Stdout ''Programs used by Mixer commands:\<newline>''], True)
                       [0..<length allDeps]
      in (tr, Return ok))"

section \<open>fail and failf\<close>

text \<open>
  The part of \<^verbatim>\<open>fmt.Sprintf\<close> that this package uses: the verb \<^verbatim>\<open>%s\<close> on a string or on an
  error (an error is kept as its message), \<^verbatim>\<open>%%\<close>, and what fmt writes for a missing or
  a surplus string operand. Other verbs do not occur in the formats of this package.
\<close>

fun Sprintf :: "string \<Rightarrow> string list \<Rightarrow> string" where
  "Sprintf (c # d # f) a =
     (if c = CHR ''%'' \<and> d = CHR ''s'' then
        (case a of [] \<Rightarrow> ''%!s(MISSING)'' @ Sprintf f []
                 | x # xs \<Rightarrow> x @ Sprintf f xs)
      else if c = CHR ''%'' \<and> d = CHR ''%'' then CHR ''%'' # Sprintf f a
      else c # Sprintf (d # f) a)"
| "Sprintf f a =
     (if f = ''%'' then ''%!(NOVERB)'' else f) @
     (if a = [] then [] else ''%!(EXTRA '' @ Join (map (\<lambda>x. ''string='' @ x) a) '', '' @ '')'')"

text \<open>
  \<^verbatim>\<open>fail\<close> stops the CPU profile when one was asked for, writes the line and exits.
\<close>

definition fail :: "flags \<Rightarrow> string \<Rightarrow> 'a proc" where
  "fail fl err =
     andThen (if cpuProfile fl \<noteq> [] then emit StopCPUProfile else ret ())
       (\<lambda>_. andThen (emit (Stderr (Sprintf ''ERROR: %s\<newline>'' [err])))
         (\<lambda>_. os_Exit 1))"

text \<open>\<^verbatim>\<open>failf\<close> writes the line and exits.\<close>

definition failf :: "string \<Rightarrow> string list \<Rightarrow> 'a proc" where
  "failf format a =
     andThen (emit (Stderr (Sprintf (Sprintf ''ERROR: %s\<newline>'' [format]) a)))
       (\<lambda>_. os_Exit 1)"

section \<open>The hooks of RootCmd and Execute\<close>

text \<open>
  \<^verbatim>\<open>RootCmd.PersistentPreRunE\<close>, called with the command that was selected. The value
  returned is the error, \<open>None\<close> for \<^verbatim>\<open>nil\<close>.
\<close>

definition PersistentPreRunE :: "env \<Rightarrow> flags \<Rightarrow> registry \<Rightarrow> command \<Rightarrow> string option proc" where
  "PersistentPreRunE e fl ed cmd =
     andThen
       (if cpuProfile fl \<noteq> [] then
          andThen (emit (OsCreate (cpuProfile fl)))
            (\<lambda>_. case osCreate e (cpuProfile fl) of
                   Some err \<Rightarrow> failf ''couldn't create file for CPU profile: %s'' [err]
                 | None \<Rightarrow>
                     (case startCPUProfile e of
                        Some err \<Rightarrow> failf ''couldn't start profiling: %s'' [err]
                      | None \<Rightarrow> emit StartCPUProfile))
        else ret ())
       (\<lambda>_. andThen
          (if Parent cmd = None then
             andThen
               (if version fl then
                  andThen (emit (Stdout (Sprintf ''Mixer %s\<newline>'' [builderVersion e])))
                    (\<lambda>_. os_Exit 0)
                else ret ())
               (\<lambda>_. if check fl then
                      andThen (checkAllDeps e ed)
                        (\<lambda>ok. if \<not> ok then os_Exit 1 else os_Exit 0)
                    else ret ())
           else ret ())
          (\<lambda>_. checkCmdDeps e ed cmd))"

text \<open>\<^verbatim>\<open>RootCmd.PersistentPostRun\<close>.\<close>

definition PersistentPostRun :: "flags \<Rightarrow> unit proc" where
  "PersistentPostRun fl = (if cpuProfile fl \<noteq> [] then emit StopCPUProfile else ret ())"

text \<open>\<^verbatim>\<open>RootCmd.Run\<close>: \<^verbatim>\<open>cmd.Print(cmd.UsageString())\<close>, which cobra sends to standard error.\<close>

definition RootCmd_Run :: "env \<Rightarrow> command \<Rightarrow> unit proc" where
  "RootCmd_Run e cmd = emit (Stderr (usageString e (addr cmd)))"

text \<open>
  The dispatcher is the cobra library, which is not part of this package. What is
  modelled is the order in which \<^verbatim>\<open>(*cobra.Command).execute\<close> calls the hooks of the command
  \<open>c\<close> it has selected, once the arguments are parsed and accepted: the nearest
  \<^verbatim>\<open>PersistentPreRunE\<close> on the parent chain (only \<^verbatim>\<open>RootCmd\<close> has one), whose error is
  returned at once; then \<^verbatim>\<open>c.Run\<close>; then the nearest \<^verbatim>\<open>PersistentPostRun\<close>. The \<^verbatim>\<open>Run\<close>
  functions of the commands are the parameter \<open>run\<close>.
\<close>

definition cobra_execute ::
  "env \<Rightarrow> flags \<Rightarrow> registry \<Rightarrow> (command \<Rightarrow> unit proc) \<Rightarrow> command \<Rightarrow> string option proc" where
  "cobra_execute e fl ed run c =
     andThen (PersistentPreRunE e fl ed c)
       (\<lambda>err. case err of
                Some m \<Rightarrow> ret (Some m)
              | None \<Rightarrow>
                  andThen (emit (RunAction (addr c)))
                    (\<lambda>_. andThen (run c)
                      (\<lambda>_. andThen (PersistentPostRun fl)
                        (\<lambda>_. ret None))))"

text \<open>
  \<^verbatim>\<open>RootCmd.Execute()\<close>: on an error, cobra prints it and the usage of the command
  (\<^verbatim>\<open>RootCmd\<close> sets neither \<^verbatim>\<open>SilenceErrors\<close> nor \<^verbatim>\<open>SilenceUsage\<close>) and returns it.
\<close>

definition RootCmd_Execute ::
  "env \<Rightarrow> flags \<Rightarrow> registry \<Rightarrow> (command \<Rightarrow> unit proc) \<Rightarrow> command \<Rightarrow> string option proc" where
  "RootCmd_Execute e fl ed run c =
     andThen (cobra_execute e fl ed run c)
       (\<lambda>err. case err of
                Some m \<Rightarrow>
                  andThen (emit (Stderr (''Error: '' @ m @ ''\<newline>'')))
                    (\<lambda>_. andThen (emit (Stderr (usageString e (addr c) @ ''\<newline>'')))
                      (\<lambda>_. ret (Some m)))
              | None \<Rightarrow> ret None)"

text \<open>\<^verbatim>\<open>Execute\<close>.\<close>

definition Execute ::
  "env \<Rightarrow> flags \<Rightarrow> registry \<Rightarrow> (command \<Rightarrow> unit proc) \<Rightarrow> command \<Rightarrow> unit proc" where
  "Execute e fl ed run c =
     andThen (RootCmd_Execute e fl ed run c)
       (\<lambda>err. if err \<noteq> None then os_Exit 1 else ret ())"

section \<open>The add-rpms command\<close>

text \<open>\<^verbatim>\<open>runAddRPM\<close>; \<open>config\<close> is the package variable set by the \<^verbatim>\<open>--config\<close> flag.\<close>

definition runAddRPM :: "env \<Rightarrow> flags \<Rightarrow> string \<Rightarrow> unit proc" where
  "runAddRPM e fl config =
     andThen (emit (NewFromConfig config))
       (\<lambda>_. case newFromConfig e config of
              Inl err \<Rightarrow> fail fl err
            | Inr b \<Rightarrow>
                andThen (if RPMdir b = [] then failf ''RPMDIR not set in configuration'' []
                         else ret ())
                  (\<lambda>_. andThen (emit (ReadDir (RPMdir b)))
                    (\<lambda>_. case readDir e (RPMdir b) of
                           Inl err \<Rightarrow> failf ''cannot read RPMDIR: %s'' [err]
                         | Inr rpms \<Rightarrow>
                             andThen (emit (AddRPMList rpms))
                               (\<lambda>_. case addRPMList e rpms of
                                      Some err \<Rightarrow> fail fl err
                                    | None \<Rightarrow> ret ()))))"

text \<open>
  The command tree and the registry that the two \<^verbatim>\<open>init\<close> functions build.
\<close>

definition RootCmd :: command where
  "RootCmd = Command 0 None"

definition initCmd :: command where
  "initCmd = Command 1 (Some RootCmd)"

definition addRPMCmd :: command where
  "addRPMCmd = Command 2 (Some RootCmd)"

definition externalDeps :: registry where
  "externalDeps = [(addr initCmd, [''git'']), (addr addRPMCmd, [''createrepo_c'', ''hardlink''])]"

section \<open>Reading a trace\<close>

text \<open>Whether a CPU profile is being captured after the events of a trace.\<close>

definition profiling :: "event list \<Rightarrow> bool" where
  "profiling tr =
     foldl (\<lambda>b ev. case ev of StartCPUProfile \<Rightarrow> True | StopCPUProfile \<Rightarrow> False | _ \<Rightarrow> b)
       False tr"

text \<open>The names handed to \<^verbatim>\<open>exec.LookPath\<close>, and the text written to standard output.\<close>

definition lookups :: "event list \<Rightarrow> string list" where
  "lookups tr = concat (map (\<lambda>ev. case ev of ExecLookPath d \<Rightarrow> [d] | _ \<Rightarrow> []) tr)"

definition stdout :: "event list \<Rightarrow> string list" where
  "stdout tr = concat (map (\<lambda>ev. case ev of Stdout s \<Rightarrow> [s] | _ \<Rightarrow> []) tr)"

text \<open>A command followed by its ancestors up to the root.\<close>

function ancestry :: "command option \<Rightarrow> command list" where
  "ancestry None = []"
| "ancestry (Some cmd) = cmd # ancestry (Parent cmd)"
  by pat_completeness auto
termination
  by (relation "measure (size_option size)") (auto, case_tac cmd, simp)

section \<open>The specification's view of the resolver\<close>

text \<open>
  The specification speaks of three operations on sets of names. They are written here
  after its words, to be compared with what the code computes: \<open>resolveChain\<close> is the union
  of the sets declared by a command and by each of its ancestors, \<open>resolveAll\<close> the union over
  every entry of the registry, \<open>verify\<close> the subset of names that do not resolve.
\<close>

definition resolveChain_spec :: "registry \<Rightarrow> command \<Rightarrow> string set" where
  "resolveChain_spec ed c = \<Union> (set ` externalDeps_at ed ` set (ancestry (Some c)))"

definition resolveAll_spec :: "registry \<Rightarrow> string set" where
  "resolveAll_spec ed = \<Union> (set ` snd ` set ed)"

definition verify_spec :: "env \<Rightarrow> string set \<Rightarrow> string set" where
  "verify_spec e names = {d \<in> names. \<not> lookPath e d}"

section \<open>Concrete runs\<close>

text \<open>
  An environment in which \<^verbatim>\<open>git\<close> is not on the search path and everything else is, the
  profile can be started, and the configuration has no \<^verbatim>\<open>RPMDIR\<close>; and one in which no
  program resolves at all.
\<close>

definition example_env :: env where
  "example_env =
     \<lparr>lookPath = (\<lambda>d. d \<noteq> ''git''),
      osCreate = (\<lambda>p. None),
      startCPUProfile = None,
      builderVersion = ''4.0.0'',
      usageString = (\<lambda>a. ''Usage: mixer''),
      newFromConfig = (\<lambda>p. Inr \<lparr>RPMdir = ''''\<rparr>),
      readDir = (\<lambda>d. Inr []),
      addRPMList = (\<lambda>rpms. None)\<rparr>"

definition bare_env :: env where
  "bare_env = example_env\<lparr>lookPath := (\<lambda>d. False)\<rparr>"

text \<open>
  The flags of \<^verbatim>\<open>mixer\<close> alone, with \<^verbatim>\<open>--cpu-profile=cpu.prof\<close>, with \<^verbatim>\<open>--version\<close>, with
  \<^verbatim>\<open>--check\<close>, and with both of these.
\<close>

definition plain_flags :: flags where
  "plain_flags = \<lparr>version = False, check = False, cpuProfile = ''''\<rparr>"

definition profile_flags :: flags where
  "profile_flags = \<lparr>version = False, check = False, cpuProfile = ''cpu.prof''\<rparr>"


definition check_flags :: flags where
  "check_flags = \<lparr>version = False, check = True, cpuProfile = ''''\<rparr>"


section \<open>Properties of the loops\<close>

subsection \<open>The walk to the root and the scan of the sorted slice\<close>

lemma collectDeps_eq:
  "collectDeps ed c deps = deps @ concat (map (externalDeps_at ed) (ancestry c))"
  by (induction ed c deps rule: collectDeps.induct) simp_all

lemma remdups_adj_snoc:
  "remdups_adj (xs @ [x]) = (if xs \<noteq> [] \<and> last xs = x then remdups_adj xs else remdups_adj xs @ [x])"
  by (induction xs rule: remdups_adj.induct) auto

lemma last_take: "0 < n \<Longrightarrow> n \<le> length xs \<Longrightarrow> last (take n xs) = xs ! (n - 1)"
  by (cases n) (simp_all add: take_Suc_conv_app_nth)

lemma cmdDepsLoop_prefix:
  "n \<le> length deps \<Longrightarrow>
   foldl (cmdDepsStep e deps) ([], []) [0..<n] =
     (map ExecLookPath (remdups_adj (take n deps)),
      filter (\<lambda>d. \<not> lookPath e d) (remdups_adj (take n deps)))"
proof (induction n)
  case 0
  then show ?case by simp
next
  case (Suc n)
  then have n: "n < length deps" by simp
  show ?case
  proof (cases "n = 0")
    case True
    with n show ?thesis by (simp add: cmdDepsStep_def take_Suc_conv_app_nth)
  next
    case False
    with n have "(deps ! n = deps ! (n - 1)) = (last (take n deps) = deps ! n)"
      and "take n deps \<noteq> []"
      by (auto simp add: last_take)
    with Suc n False show ?thesis
      by (simp add: cmdDepsStep_def take_Suc_conv_app_nth remdups_adj_snoc)
  qed
qed

lemma cmdDepsLoop_eq:
  "cmdDepsLoop e deps =
     (map ExecLookPath (remdups_adj deps), filter (\<lambda>d. \<not> lookPath e d) (remdups_adj deps))"
  using cmdDepsLoop_prefix [of "length deps" deps e] by (simp add: cmdDepsLoop_def)

lemma sorted_remdups_adj_distinct:
  "sorted (xs :: 'a :: linorder list) \<Longrightarrow> distinct (remdups_adj xs)"
proof (induction xs rule: remdups_adj.induct)
  case (3 x y xs)
  then show ?case by (auto simp: order.strict_iff_order)
qed simp_all

lemma remdups_adj_sort:
  "remdups_adj (sort xs) = sorted_list_of_set (set (xs :: 'a :: linorder list))"
proof (rule sorted_distinct_set_unique)
  show "sorted (remdups_adj (sort xs))" by simp
  show "distinct (remdups_adj (sort xs))" by (simp add: sorted_remdups_adj_distinct)
qed simp_all

lemma foldl_append_snd: "foldl (\<lambda>all entry. all @ snd entry) acc ed = acc @ concat (map snd ed)"
  by (induction ed arbitrary: acc) simp_all

subsection \<open>Widths\<close>

lemma RuneCountInString_le: "RuneCountInString s \<le> length s"
  by (induction s rule: RuneCountInString.induct) (simp_all add: le_diff_conv)

lemma RuneCountInString_ascii:
  "list_all (\<lambda>c. (of_char c :: nat) < 0x80) s \<Longrightarrow> RuneCountInString s = length s"
  by (induction s) (simp_all add: runeLen_def)

lemma maxLen_fold:
  "foldl (\<lambda>m dep. if length dep > m then length dep else m) m0 xs = fold max (map length xs) m0"
  by (induction xs arbitrary: m0) (simp_all add: max_def not_less)

lemma maxLen_eq:
  "foldl (\<lambda>m dep. if length dep > m then length dep else m) m0 xs = Max (insert m0 (length ` set xs))"
  using Max.set_eq_fold [of m0 "map length xs"] by (simp add: maxLen_fold)

lemma allDepsLoop_prefix:
  "n \<le> length deps \<Longrightarrow>
   foldl (allDepsStep e deps mx) (tr0, ok0) [0..<n] =
     (tr0 @ concat (map (\<lambda>d. [ExecLookPath d,
                Stdout (''  '' @ padRight mx d @ (if lookPath e d then '' ok\<newline>'' else '' not found\<newline>''))])
            (remdups_adj (take n deps))),
      ok0 \<and> list_all (lookPath e) (remdups_adj (take n deps)))"
proof (induction n)
  case 0
  then show ?case by simp
next
  case (Suc n)
  then have n: "n < length deps" by simp
  show ?case
  proof (cases "n = 0")
    case True
    with n show ?thesis by (simp add: allDepsStep_def take_Suc_conv_app_nth)
  next
    case False
    with n have "(deps ! n = deps ! (n - 1)) = (last (take n deps) = deps ! n)"
      and "take n deps \<noteq> []"
      by (auto simp add: last_take)
    with Suc n False show ?thesis
      by (simp add: allDepsStep_def take_Suc_conv_app_nth remdups_adj_snoc)
  qed
qed

lemma finite_resolveChain: "finite (resolveChain_spec ed c)"
  by (simp add: resolveChain_spec_def)

lemma finite_resolveAll: "finite (resolveAll_spec ed)"
  by (simp add: resolveAll_spec_def)

lemma filter_sorted_list_of_set:
  "finite S \<Longrightarrow> filter P (sorted_list_of_set S) = sorted_list_of_set {d \<in> S. P d}"
  by (rule sorted_distinct_set_unique) (simp_all add: sorted_filter [where f = id, simplified])

lemma set_collectDeps: "set (collectDeps ed (Some c) []) = resolveChain_spec ed c"
  by (simp add: collectDeps_eq resolveChain_spec_def del: ancestry.simps)

lemma set_allDeps: "set (foldl (\<lambda>all entry. all @ snd entry) [] ed) = resolveAll_spec ed"
  by (simp add: foldl_append_snd resolveAll_spec_def)

lemma checkAllDeps_eq:
  "checkAllDeps e ed =
     (Stdout ''Programs used by Mixer commands:\<newline>'' #
      concat (map (\<lambda>d. [ExecLookPath d,
                Stdout (''  '' @ padRight (Max (insert 0 (length ` resolveAll_spec ed))) d @
                        (if lookPath e d then '' ok\<newline>'' else '' not found\<newline>''))])
            (sorted_list_of_set (resolveAll_spec ed))),
      Return (list_all (lookPath e) (sorted_list_of_set (resolveAll_spec ed))))"
proof -
  define deps where "deps = foldl (\<lambda>all entry. all @ snd entry) [] ed"
  have "remdups_adj (sort deps) = sorted_list_of_set (resolveAll_spec ed)"
    and "set deps = resolveAll_spec ed"
    by (simp_all add: remdups_adj_sort set_allDeps deps_def)
  then show ?thesis
    using allDepsLoop_prefix [of "length (sort deps)" "sort deps" e]
    by (simp add: checkAllDeps_def deps_def [symmetric] maxLen_eq Let_def)
qed

lemma checkCmdDeps_eq:
  "checkCmdDeps e ed c =
     (map ExecLookPath (sorted_list_of_set (resolveChain_spec ed c)),
      Return (if verify_spec e (resolveChain_spec ed c) = {} then None
              else Some (''missing following external programs: '' @
                         Join (sorted_list_of_set (verify_spec e (resolveChain_spec ed c))) '', '')))"
proof -
  define deps where "deps = collectDeps ed (Some c) []"
  have "remdups_adj (sort deps) = sorted_list_of_set (resolveChain_spec ed c)"
    by (simp add: remdups_adj_sort set_collectDeps deps_def del: collectDeps.simps)
  moreover have "filter (\<lambda>d. \<not> lookPath e d) (sorted_list_of_set (resolveChain_spec ed c))
      = sorted_list_of_set (verify_spec e (resolveChain_spec ed c))"
    by (simp add: filter_sorted_list_of_set finite_resolveChain verify_spec_def)
  moreover have "finite (verify_spec e (resolveChain_spec ed c))"
    by (simp add: verify_spec_def finite_resolveChain)
  ultimately show ?thesis
    unfolding checkCmdDeps_def deps_def [symmetric]
    by (simp add: cmdDepsLoop_eq Let_def)
qed

subsection \<open>Projections of a trace\<close>

lemma lookups_map: "lookups (map ExecLookPath xs) = xs"
  by (induction xs) (simp_all add: lookups_def)

lemma lookups_table:
  "lookups (Stdout h # concat (map (\<lambda>d. [ExecLookPath d, Stdout (f d)]) xs)) = xs"
  by (induction xs) (simp_all add: lookups_def)

lemma stdout_table:
  "stdout (Stdout h # concat (map (\<lambda>d. [ExecLookPath d, Stdout (f d)]) xs)) = h # map f xs"
  by (induction xs) (simp_all add: stdout_def)


subsection \<open>The registry as a set of entries\<close>

lemma same_entries_same_map:
  assumes "set ed' = set ed" and "distinct (map fst ed)" and "distinct (map fst ed')"
  shows "externalDeps_at ed' = externalDeps_at ed"
proof -
  from assms have "map_of ed' = map_of ed"
    using map_of_inject_set [of ed' ed] by simp
  then show ?thesis by (simp add: externalDeps_at_def fun_eq_iff)
qed

lemma resolveChain_same_entries:
  assumes "set ed' = set ed" and "distinct (map fst ed)" and "distinct (map fst ed')"
  shows "resolveChain_spec ed' c = resolveChain_spec ed c"
  unfolding resolveChain_spec_def same_entries_same_map [OF assms] ..

lemma resolveAll_same_entries: "set ed' = set ed \<Longrightarrow> resolveAll_spec ed' = resolveAll_spec ed"
  unfolding resolveAll_spec_def by simp

subsection \<open>Formatting and the two ways to fail\<close>

lemma Sprintf_ERROR: "Sprintf ''ERROR: %s\<newline>'' [m] = ''ERROR: '' @ m @ ''\<newline>''"
  by simp

lemma Sprintf_Mixer: "Sprintf ''Mixer %s\<newline>'' [v] = ''Mixer '' @ v @ ''\<newline>''"
  by simp

lemma padRight_eq: "padRight w s = s @ replicate (w - RuneCountInString s) (CHR '' '')"
  by (simp add: padRight_def)

lemma fail_eq:
  "fail fl err =
     ((if cpuProfile fl \<noteq> [] then [StopCPUProfile] else []) @
      [Stderr (''ERROR: '' @ err @ ''\<newline>'')], Exit 1)"
  by (simp add: fail_def andThen_def emit_def ret_def os_Exit_def)

lemma failf_eq:
  "failf format a = ([Stderr (Sprintf (''ERROR: '' @ format @ ''\<newline>'') a)], Exit 1)"
  by (simp add: failf_def andThen_def emit_def os_Exit_def)

subsection \<open>The hook and the dispatcher, by cases\<close>

text \<open>
  When no profile is asked for, or the profile could be started, the hook goes on to the
  flags of the root command and then to the check of the selected command.
\<close>

lemma PersistentPreRunE_eq:
  assumes "cpuProfile fl = [] \<or> (osCreate e (cpuProfile fl) = None \<and> startCPUProfile e = None)"
  shows "PersistentPreRunE e fl ed c =
     andThen
       ((if cpuProfile fl \<noteq> [] then [OsCreate (cpuProfile fl), StartCPUProfile] else []), Return ())
       (\<lambda>_. if Parent c = None \<and> version fl
             then ([Stdout (''Mixer '' @ builderVersion e @ ''\<newline>'')], Exit 0)
             else if Parent c = None \<and> check fl
             then (fst (checkAllDeps e ed),
                   Exit (if list_all (lookPath e) (sorted_list_of_set (resolveAll_spec ed))
                         then 0 else 1))
             else checkCmdDeps e ed c)"
  using assms
  by (auto simp add: PersistentPreRunE_def andThen_def emit_def ret_def os_Exit_def checkAllDeps_eq
      split: prod.splits res.splits)

lemma PersistentPreRunE_profile_fails:
  assumes "cpuProfile fl \<noteq> []"
    and "\<not> (osCreate e (cpuProfile fl) = None \<and> startCPUProfile e = None)"
  shows "\<exists>m. PersistentPreRunE e fl ed c = ([OsCreate (cpuProfile fl), Stderr m], Exit 1)"
  using assms
  by (auto simp add: PersistentPreRunE_def andThen_def emit_def failf_eq split: option.splits)

lemma cobra_execute_eq:
  "cobra_execute e fl ed run c =
     (case PersistentPreRunE e fl ed c of
        (tr, Exit n) \<Rightarrow> (tr, Exit n)
      | (tr, Return (Some m)) \<Rightarrow> (tr, Return (Some m))
      | (tr, Return None) \<Rightarrow>
          (case run c of
             (tr', Exit n) \<Rightarrow> (tr @ RunAction (addr c) # tr', Exit n)
           | (tr', Return _) \<Rightarrow>
               (tr @ RunAction (addr c) # tr' @ fst (PersistentPostRun fl), Return None)))"
  by (simp add: cobra_execute_def andThen_def emit_def ret_def PersistentPostRun_def
      split: prod.splits res.splits option.splits)

lemma Execute_eq:
  "Execute e fl ed run c =
     (case PersistentPreRunE e fl ed c of
        (tr, Exit n) \<Rightarrow> (tr, Exit n)
      | (tr, Return (Some m)) \<Rightarrow>
          (tr @ [Stderr (''Error: '' @ m @ ''\<newline>''),
                 Stderr (usageString e (addr c) @ ''\<newline>'')],
           Exit 1)
      | (tr, Return None) \<Rightarrow>
          (case run c of
             (tr', Exit n) \<Rightarrow> (tr @ RunAction (addr c) # tr', Exit n)
           | (tr', Return _) \<Rightarrow>
               (tr @ RunAction (addr c) # tr' @ fst (PersistentPostRun fl), Return ())))"
  by (simp add: Execute_def RootCmd_Execute_def cobra_execute_eq andThen_def emit_def ret_def
      os_Exit_def split: prod.splits res.splits option.splits)

section \<open>The dependency resolver\<close>

text \<open>
  C3. For every command, the names that \<^verbatim>\<open>checkCmdDeps\<close> hands to the search-path lookup are
  the union of the names declared by the command and by each of its ancestors up to the
  root, each name once, in sorted order. The list is a function of that set alone, so
  repeated declarations, on one command or along the chain, do not change it; and two
  registries with the same entries, visited in any order, give the same lookups. The same
  holds for \<^verbatim>\<open>checkAllDeps\<close> and the union over all entries of the registry.
\<close>

theorem checked_names_deduplicated_union:
  "lookups (fst (checkCmdDeps e ed c)) = sorted_list_of_set (resolveChain_spec ed c)
   \<and> distinct (lookups (fst (checkCmdDeps e ed c)))
   \<and> set (lookups (fst (checkCmdDeps e ed c))) = resolveChain_spec ed c
   \<and> lookups (fst (checkAllDeps e ed)) = sorted_list_of_set (resolveAll_spec ed)
   \<and> distinct (lookups (fst (checkAllDeps e ed)))
   \<and> set (lookups (fst (checkAllDeps e ed))) = resolveAll_spec ed
   \<and> (set ed' = set ed \<and> distinct (map fst ed) \<and> distinct (map fst ed')
        \<longrightarrow> lookups (fst (checkCmdDeps e ed' c)) = lookups (fst (checkCmdDeps e ed c))
          \<and> lookups (fst (checkAllDeps e ed')) = lookups (fst (checkAllDeps e ed)))"
proof -
  have chain: "lookups (fst (checkCmdDeps e r c)) = sorted_list_of_set (resolveChain_spec r c)" for r
    by (simp add: checkCmdDeps_eq lookups_map)
  have all: "lookups (fst (checkAllDeps e r)) = sorted_list_of_set (resolveAll_spec r)" for r
    by (simp add: checkAllDeps_eq lookups_table)
  have "lookups (fst (checkCmdDeps e ed' c)) = lookups (fst (checkCmdDeps e ed c))
      \<and> lookups (fst (checkAllDeps e ed')) = lookups (fst (checkAllDeps e ed))"
    if "set ed' = set ed" "distinct (map fst ed)" "distinct (map fst ed')"
    using that resolveChain_same_entries [of ed' ed c] resolveAll_same_entries [of ed' ed]
    by (simp add: chain all)
  then show ?thesis
    by (simp add: chain all finite_resolveChain finite_resolveAll)
qed

text \<open>
  The registry of the program read in the other order: \<^verbatim>\<open>add-rpms\<close> looks up its two
  programs, and the global check the three programs, in the same sorted order.
\<close>

theorem checked_names_deduplicated_union_witness:
  "set (rev externalDeps) = set externalDeps
   \<and> distinct (map fst externalDeps) \<and> distinct (map fst (rev externalDeps))
   \<and> lookups (fst (checkCmdDeps example_env (rev externalDeps) addRPMCmd)) =
       [''createrepo_c'', ''hardlink'']
   \<and> lookups (fst (checkCmdDeps example_env externalDeps addRPMCmd)) =
       [''createrepo_c'', ''hardlink'']
   \<and> lookups (fst (checkAllDeps example_env (rev externalDeps))) =
       [''createrepo_c'', ''git'', ''hardlink'']
   \<and> lookups (fst (checkAllDeps example_env externalDeps)) =
       [''createrepo_c'', ''git'', ''hardlink'']"
proof -
  have h1: "set (rev externalDeps) = set externalDeps" by simp
  have h2: "distinct (map fst externalDeps)"
    by (simp add: externalDeps_def initCmd_def addRPMCmd_def)
  then have h3: "distinct (map fst (rev externalDeps))"
    by (simp add: rev_map [symmetric])
  have a: "lookups (fst (checkCmdDeps example_env externalDeps addRPMCmd)) =
      [''createrepo_c'', ''hardlink'']"
    by code_simp
  have b: "lookups (fst (checkAllDeps example_env externalDeps)) =
      [''createrepo_c'', ''git'', ''hardlink'']"
    by code_simp
  from h1 h2 h3 a b
    checked_names_deduplicated_union [of example_env externalDeps addRPMCmd "rev externalDeps"]
  show ?thesis by simp
qed




section \<open>The guard before a command's action\<close>

text \<open>
  C8. When a name of the chain of the selected command does not resolve, and the run is
  not one of the two queries of the root command (which end the process before the check is
  made), the process writes an error, exits with status 1, and the action of the command is
  not called. When the profile, if asked for, has started, what the process does is: look
  up the names of the chain, print the error that lists the missing ones, print the usage.
  (When the profile could not be started the error is that of the profile.)
\<close>

theorem missing_dependency_aborts_before_action:
  assumes "verify_spec e (resolveChain_spec ed c) \<noteq> {}"
    and "\<not> (Parent c = None \<and> (version fl \<or> check fl))"
  shows "snd (Execute e fl ed run c) = Exit 1
    \<and> (\<exists>s. Stderr s \<in> set (fst (Execute e fl ed run c)))
    \<and> (\<forall>a. RunAction a \<notin> set (fst (Execute e fl ed run c)))
    \<and> (cpuProfile fl = [] \<or> (osCreate e (cpuProfile fl) = None \<and> startCPUProfile e = None)
       \<longrightarrow> fst (Execute e fl ed run c) =
         (if cpuProfile fl \<noteq> [] then [OsCreate (cpuProfile fl), StartCPUProfile] else []) @
         map ExecLookPath (sorted_list_of_set (resolveChain_spec ed c)) @
         [Stderr (''Error: missing following external programs: '' @
                  Join (sorted_list_of_set (verify_spec e (resolveChain_spec ed c))) '', '' @
                  ''\<newline>''),
          Stderr (usageString e (addr c) @ ''\<newline>'')])"
proof (cases "cpuProfile fl = [] \<or> (osCreate e (cpuProfile fl) = None \<and> startCPUProfile e = None)")
  case True
  with assms show ?thesis
    by (auto simp add: Execute_eq PersistentPreRunE_eq andThen_def checkCmdDeps_eq)
next
  case False
  then obtain m where "PersistentPreRunE e fl ed c = ([OsCreate (cpuProfile fl), Stderr m], Exit 1)"
    using PersistentPreRunE_profile_fails [of fl e ed c] by blast
  with False show ?thesis
    by (auto simp add: Execute_eq)
qed

text \<open>\<^verbatim>\<open>mixer add-rpms\<close> where no program resolves.\<close>

theorem missing_dependency_aborts_before_action_witness:
  "verify_spec bare_env (resolveChain_spec externalDeps addRPMCmd) \<noteq> {}
   \<and> \<not> (Parent addRPMCmd = None \<and> (version plain_flags \<or> check plain_flags))
   \<and> (cpuProfile plain_flags = [] \<or>
       (osCreate bare_env (cpuProfile plain_flags) = None \<and> startCPUProfile bare_env = None))
   \<and> Execute bare_env plain_flags externalDeps
        (\<lambda>c. runAddRPM bare_env plain_flags ''builder.conf'') addRPMCmd =
      ([ExecLookPath ''createrepo_c'', ExecLookPath ''hardlink'',
        Stderr ''Error: missing following external programs: createrepo_c, hardlink\<newline>'',
        Stderr ''Usage: mixer\<newline>''], Exit 1)
   \<and> (\<forall>a. RunAction a \<notin> set (fst (Execute bare_env plain_flags externalDeps
        (\<lambda>c. runAddRPM bare_env plain_flags ''builder.conf'') addRPMCmd)))"
proof -
  have "''hardlink'' \<in> verify_spec bare_env (resolveChain_spec externalDeps addRPMCmd)"
    by (simp add: verify_spec_def resolveChain_spec_def externalDeps_def externalDeps_at_def
        initCmd_def RootCmd_def addRPMCmd_def bare_env_def)
  then have h1: "verify_spec bare_env (resolveChain_spec externalDeps addRPMCmd) \<noteq> {}"
    by blast
  have h2: "\<not> (Parent addRPMCmd = None \<and> (version plain_flags \<or> check plain_flags))"
    by (simp add: addRPMCmd_def)
  have h3: "cpuProfile plain_flags = [] \<or>
       (osCreate bare_env (cpuProfile plain_flags) = None \<and> startCPUProfile bare_env = None)"
    by (simp add: plain_flags_def)
  have v: "Execute bare_env plain_flags externalDeps
        (\<lambda>c. runAddRPM bare_env plain_flags ''builder.conf'') addRPMCmd =
      ([ExecLookPath ''createrepo_c'', ExecLookPath ''hardlink'',
        Stderr ''Error: missing following external programs: createrepo_c, hardlink\<newline>'',
        Stderr ''Usage: mixer\<newline>''], Exit 1)"
    by code_simp
  from missing_dependency_aborts_before_action [OF h1 h2]
  have "\<forall>a. RunAction a \<notin> set (fst (Execute bare_env plain_flags externalDeps
        (\<lambda>c. runAddRPM bare_env plain_flags ''builder.conf'') addRPMCmd))"
    by blast
  with h1 h2 h3 v show ?thesis by blast
qed





section \<open>Global check mode\<close>

text \<open>
  C7. \<^verbatim>\<open>checkAllDeps\<close> writes the heading and then one line for each name of the registry,
  each name once, in sorted order whatever the order of the entries: two spaces, the name,
  spaces up to the width of the longest name (counted in bytes, as \<^verbatim>\<open>len\<close> does; no name
  has more runes than that), a space and \<^verbatim>\<open>ok\<close> when the name resolves, \<^verbatim>\<open>not found\<close>
  when it does not. It returns whether every name resolved. When the root command runs
  with \<^verbatim>\<open>--check\<close> and without \<^verbatim>\<open>--version\<close> (and the profile, if asked for, has started),
  that table is the standard output of the process, which exits with status 0 if every
  name resolved and 1 otherwise.
\<close>

theorem global_check_table_and_status:
  "(let names = sorted_list_of_set (resolveAll_spec ed);
        mx = Max (insert 0 (length ` resolveAll_spec ed))
    in stdout (fst (checkAllDeps e ed)) =
         ''Programs used by Mixer commands:\<newline>'' #
         map (\<lambda>d. ''  '' @ d @ replicate (mx - RuneCountInString d) (CHR '' '') @
                   (if lookPath e d then '' ok\<newline>'' else '' not found\<newline>'')) names
       \<and> distinct names \<and> sorted names \<and> set names = resolveAll_spec ed
       \<and> list_all (\<lambda>d. RuneCountInString d + (mx - RuneCountInString d) = mx) names
       \<and> snd (checkAllDeps e ed) = Return (list_all (lookPath e) names)
       \<and> (Parent c = None \<and> check fl \<and> \<not> version fl
            \<and> (cpuProfile fl = [] \<or>
                (osCreate e (cpuProfile fl) = None \<and> startCPUProfile e = None))
          \<longrightarrow> stdout (fst (Execute e fl ed run c)) = stdout (fst (checkAllDeps e ed))
            \<and> snd (Execute e fl ed run c) =
                Exit (if list_all (lookPath e) names then 0 else 1)))"
proof -
  have le: "RuneCountInString d \<le> Max (insert 0 (length ` resolveAll_spec ed))"
    if "d \<in> resolveAll_spec ed" for d
  proof -
    have "length d \<le> Max (insert 0 (length ` resolveAll_spec ed))"
      using that by (intro Max_ge) (simp_all add: finite_resolveAll)
    with RuneCountInString_le [of d] show ?thesis by simp
  qed
  have pad: "list_all
      (\<lambda>d. RuneCountInString d + (Max (insert 0 (length ` resolveAll_spec ed)) - RuneCountInString d)
            = Max (insert 0 (length ` resolveAll_spec ed)))
      (sorted_list_of_set (resolveAll_spec ed))"
    using le by (simp add: list_all_iff finite_resolveAll)
  have ex: "Parent c = None \<and> check fl \<and> \<not> version fl
            \<and> (cpuProfile fl = [] \<or>
                (osCreate e (cpuProfile fl) = None \<and> startCPUProfile e = None))
          \<longrightarrow> stdout (fst (Execute e fl ed run c)) = stdout (fst (checkAllDeps e ed))
            \<and> snd (Execute e fl ed run c) =
               Exit (if list_all (lookPath e) (sorted_list_of_set (resolveAll_spec ed))
                     then 0 else 1)"
    by (auto simp add: Execute_eq PersistentPreRunE_eq andThen_def stdout_def)
  show ?thesis
    using pad ex
    by (simp add: Let_def checkAllDeps_eq stdout_table padRight_eq finite_resolveAll)
qed

text \<open>\<^verbatim>\<open>mixer --check\<close> where \<^verbatim>\<open>git\<close> alone is missing.\<close>

theorem global_check_table_and_status_witness:
  "Parent RootCmd = None \<and> check check_flags \<and> \<not> version check_flags
   \<and> (cpuProfile check_flags = [] \<or>
       (osCreate example_env (cpuProfile check_flags) = None \<and> startCPUProfile example_env = None))
   \<and> stdout (fst (Execute example_env check_flags externalDeps (RootCmd_Run example_env) RootCmd)) =
        [''Programs used by Mixer commands:\<newline>'',
         ''  createrepo_c ok\<newline>'',
         ''  git          not found\<newline>'',
         ''  hardlink     ok\<newline>'']
   \<and> snd (Execute example_env check_flags externalDeps (RootCmd_Run example_env) RootCmd) = Exit 1"
proof -
  have h: "Parent RootCmd = None \<and> check check_flags \<and> \<not> version check_flags
   \<and> (cpuProfile check_flags = [] \<or>
       (osCreate example_env (cpuProfile check_flags) = None \<and> startCPUProfile example_env = None))"
    by (simp add: RootCmd_def check_flags_def)
  have r1: "stdout (fst (checkAllDeps example_env externalDeps)) =
        [''Programs used by Mixer commands:\<newline>'',
         ''  createrepo_c ok\<newline>'',
         ''  git          not found\<newline>'',
         ''  hardlink     ok\<newline>'']"
    by code_simp
  have r2: "snd (checkAllDeps example_env externalDeps) = Return False"
    by code_simp
  have "stdout (fst (Execute example_env check_flags externalDeps (RootCmd_Run example_env) RootCmd)) =
        stdout (fst (checkAllDeps example_env externalDeps))
   \<and> snd (Execute example_env check_flags externalDeps (RootCmd_Run example_env) RootCmd) =
        Exit (if snd (checkAllDeps example_env externalDeps) = Return True then 0 else 1)"
    using global_check_table_and_status
      [of externalDeps example_env RootCmd check_flags "RootCmd_Run example_env"] h
    by (simp add: Let_def)
  with h r1 r2 show ?thesis by simp
qed

section \<open>Profiling and the ways out of the process\<close>

text \<open>
  C1. The claim is that \<^verbatim>\<open>fail\<close> and \<^verbatim>\<open>failf\<close> both stop a running CPU profile before they
  write their line and exit with status 1. \<^verbatim>\<open>fail\<close> does. \<^verbatim>\<open>failf\<close> writes the line and
  exits without stopping anything: in the run of \<^verbatim>\<open>mixer add-rpms --cpu-profile=cpu.prof\<close>
  on a configuration without \<^verbatim>\<open>RPMDIR\<close>, the profile is started, the two programs
  resolve, the action calls \<^verbatim>\<open>failf\<close>, and the process exits with status 1 while the
  profile is still being captured.
\<close>

theorem failf_exits_with_profile_running:
  "StopCPUProfile \<notin> set (fst (failf format a :: unit proc))
   \<and> Execute example_env profile_flags externalDeps
       (\<lambda>c. runAddRPM example_env profile_flags ''builder.conf'') addRPMCmd =
     ([OsCreate ''cpu.prof'', StartCPUProfile,
       ExecLookPath ''createrepo_c'', ExecLookPath ''hardlink'',
       RunAction 2, NewFromConfig ''builder.conf'',
       Stderr ''ERROR: RPMDIR not set in configuration\<newline>''], Exit 1)
   \<and> profiling [OsCreate ''cpu.prof'', StartCPUProfile,
       ExecLookPath ''createrepo_c'', ExecLookPath ''hardlink'',
       RunAction 2, NewFromConfig ''builder.conf'',
       Stderr ''ERROR: RPMDIR not set in configuration\<newline>'']"
proof -
  have "StopCPUProfile \<notin> set (fst (failf format a :: unit proc))"
    by (simp add: failf_eq)
  moreover have "Execute example_env profile_flags externalDeps
       (\<lambda>c. runAddRPM example_env profile_flags ''builder.conf'') addRPMCmd =
     ([OsCreate ''cpu.prof'', StartCPUProfile,
       ExecLookPath ''createrepo_c'', ExecLookPath ''hardlink'',
       RunAction 2, NewFromConfig ''builder.conf'',
       Stderr ''ERROR: RPMDIR not set in configuration\<newline>''], Exit 1)"
    by code_simp
  moreover have "profiling [OsCreate ''cpu.prof'', StartCPUProfile,
       ExecLookPath ''createrepo_c'', ExecLookPath ''hardlink'',
       RunAction 2, NewFromConfig ''builder.conf'',
       Stderr ''ERROR: RPMDIR not set in configuration\<newline>'']"
    by code_simp
  ultimately show ?thesis by blast
qed

text \<open>
  C2. The claim is that a run with profiling that is stopped by a missing program stops
  the profile before the process exits. The hook returns the error of \<^verbatim>\<open>checkCmdDeps\<close>, the
  dispatcher returns it without calling the post-run hook, and \<^verbatim>\<open>Execute\<close> exits with status
  1: in the run of \<^verbatim>\<open>mixer init --cpu-profile=cpu.prof\<close> where \<^verbatim>\<open>git\<close> is missing, whatever
  the actions are, the process exits while the profile is still being captured.
\<close>

theorem missing_dependency_exit_with_profile_running:
  "Execute example_env profile_flags externalDeps run initCmd =
     ([OsCreate ''cpu.prof'', StartCPUProfile, ExecLookPath ''git'',
       Stderr ''Error: missing following external programs: git\<newline>'',
       Stderr ''Usage: mixer\<newline>''], Exit 1)
   \<and> profiling [OsCreate ''cpu.prof'', StartCPUProfile, ExecLookPath ''git'',
       Stderr ''Error: missing following external programs: git\<newline>'',
       Stderr ''Usage: mixer\<newline>'']"
  by code_simp

section \<open>add-rpms without RPMDIR\<close>

text \<open>
  C10. When the builder has been made from the configuration and its \<^verbatim>\<open>RPMdir\<close> is the
  empty string, \<^verbatim>\<open>runAddRPM\<close> writes the line that says that \<^verbatim>\<open>RPMDIR\<close> is not set and exits
  with status 1; no directory has been read and no list of packages handed over.
\<close>

theorem add_rpms_without_RPMDIR_fails:
  "newFromConfig e config = Inr b \<Longrightarrow> RPMdir b = [] \<Longrightarrow>
   runAddRPM e fl config =
     ([NewFromConfig config, Stderr ''ERROR: RPMDIR not set in configuration\<newline>''], Exit 1)"
  by (simp add: runAddRPM_def failf_eq andThen_def emit_def)

theorem add_rpms_without_RPMDIR_fails_witness:
  "newFromConfig example_env ''builder.conf'' = Inr \<lparr>RPMdir = ''''\<rparr>
   \<and> RPMdir \<lparr>RPMdir = ''''\<rparr> = []
   \<and> runAddRPM example_env plain_flags ''builder.conf'' =
     ([NewFromConfig ''builder.conf'', Stderr ''ERROR: RPMDIR not set in configuration\<newline>''],
      Exit 1)"
proof -
  have h: "newFromConfig example_env ''builder.conf'' = Inr \<lparr>RPMdir = ''''\<rparr>"
    by (simp add: example_env_def)
  have r: "RPMdir \<lparr>RPMdir = ''''\<rparr> = []" by simp
  from add_rpms_without_RPMDIR_fails [OF h r] h r show ?thesis by blast
qed

end
